theory Spec2Isabelle
  imports Complex_Main
begin

section \<open>ContinuousTapControl: a continuous transformer tap controller\<close>

text \<open>
  The development embeds \<^verbatim>\<open>pandapower/control/controller/trafo/ContinuousTapControl.py\<close>.

  Numbers. The source computes with numpy \<^verbatim>\<open>float64\<close> scalars read from pandas tables.
  Here they are real numbers: rounding is not modelled. A numpy division by zero raises
  nothing; it yields \<^verbatim>\<open>inf\<close> or \<^verbatim>\<open>nan\<close> (with a warning). Where such a value only feeds a
  comparison, the comparison's IEEE outcome is written out (see \<open>is_converged\<close>); where it
  would be stored, the run ends in the outcome \<open>NonFinite\<close>, which is not an exception
  but marks a state the real numbers cannot hold.

  Tables. A pandas table is a partial map from the row label to a record of its
  columns; reading \<^verbatim>\<open>.at[row, col]\<close> at an absent label or column raises \<^verbatim>\<open>KeyError\<close>.
\<close>

subsection \<open>Network tables\<close>

datatype error = KeyError | AttributeError | NonFinite

text \<open>
  One row of \<^verbatim>\<open>net.trafo\<close> or \<^verbatim>\<open>net.trafo3w\<close>. The two-winding table has no
  medium-voltage columns, hence the options.
\<close>

record trafo_row =
  vn_hv_kv :: real
  vn_lv_kv :: real
  vn_mv_kv :: "real option"
  hv_bus :: int
  lv_bus :: int
  mv_bus :: "int option"
  tap_pos_cell :: real
  in_service :: bool

type_synonym trafo_table = "int \<rightharpoonup> trafo_row"

text \<open>
  \<open>bus_vn_kv\<close> is column \<^verbatim>\<open>vn_kv\<close> of \<^verbatim>\<open>net.bus\<close>, \<open>res_bus_vm_pu\<close> is column
  \<^verbatim>\<open>vm_pu\<close> of \<^verbatim>\<open>net.res_bus\<close>.
\<close>

record net =
  trafo :: trafo_table
  trafo3w :: trafo_table
  bus_vn_kv :: "int \<rightharpoonup> real"
  res_bus_vm_pu :: "int \<rightharpoonup> real"

text \<open>\<^verbatim>\<open>self.net[self.trafotable]\<close>: the transformer table of that name.\<close>

definition net_table :: "net \<Rightarrow> string \<Rightarrow> trafo_table option" where
  "net_table n name =
     (if name = ''trafo'' then Some (trafo n)
      else if name = ''trafo3w'' then Some (trafo3w n)
      else None)"

definition net_table_update :: "net \<Rightarrow> string \<Rightarrow> trafo_table \<Rightarrow> net" where
  "net_table_update n name t =
     (if name = ''trafo'' then n\<lparr>trafo := t\<rparr>
      else if name = ''trafo3w'' then n\<lparr>trafo3w := t\<rparr>
      else n)"

subsection \<open>The controller object\<close>

text \<open>
  The attributes that \<^verbatim>\<open>TrafoController.__init__\<close> leaves on the object. That base class
  is not part of the source at hand, so its outcome is a parameter of \<open>init\<close> below.
\<close>

record trafo_controller =
  b_tid :: int
  b_trafotable :: string
  b_controlled_bus :: int
  b_tap_step_percent :: real
  b_tap_side_coeff :: int
  b_tap_sign :: int
  b_tap_min :: real
  b_tap_max :: real
  b_tap_pos :: real

text \<open>
  The object after \<^verbatim>\<open>ContinuousTapControl.__init__\<close>. \<open>t_nom\<close> is an option because the
  constructor assigns it on some paths only; reading it while unset raises
  \<^verbatim>\<open>AttributeError\<close>.
\<close>

record controller =
  tid :: int
  trafotable :: string
  controlled_bus :: int
  tap_step_percent :: real
  tap_side_coeff :: int
  tap_sign :: int
  tap_min :: real
  tap_max :: real
  tap_pos :: real
  t_nom :: "real option"
  check_tap_bounds :: bool
  u_set :: real
  trafotype :: string
  tol :: real

subsection \<open>Construction\<close>

text \<open>
  \<^verbatim>\<open>t.at[tid, v] / t.at[tid, "vn_hv_kv"] * b.at[t.at[tid, "hv_bus"], "vn_kv"] / b.at[nb, "vn_kv"]\<close>
  with the winding voltage \<open>v\<close> and the bus \<open>nb\<close> already read from the row. Python
  evaluates the chain left to right. Every lookup comes before the quotient is used, so
  a missing bus is a \<^verbatim>\<open>KeyError\<close> also when a divisor is zero.
\<close>

definition nominal_ratio :: "net \<Rightarrow> trafo_row \<Rightarrow> real \<Rightarrow> int \<Rightarrow> error + real" where
  "nominal_ratio n row v nb =
     (case bus_vn_kv n (hv_bus row) of
        None \<Rightarrow> Inl KeyError
      | Some vn_h \<Rightarrow>
          (case bus_vn_kv n nb of
             None \<Rightarrow> Inl KeyError
           | Some vn_n \<Rightarrow>
               if vn_hv_kv row = 0 \<or> vn_n = 0 then Inl NonFinite
               else Inr (v / vn_hv_kv row * vn_h / vn_n)))"

text \<open>
  Lines 45 to 58: which winding enters \<open>t_nom\<close>. The result is \<open>None\<close> when no branch
  of the \<^verbatim>\<open>if/elif/elif\<close> chain is taken, so that the attribute stays unset.
\<close>

definition compute_t_nom ::
  "net \<Rightarrow> trafo_table \<Rightarrow> int \<Rightarrow> string \<Rightarrow> string \<Rightarrow> error + real option" where
  "compute_t_nom n t tid' side trafotype' =
     (if trafotype' = ''2W'' then
        (case t tid' of
           None \<Rightarrow> Inl KeyError
         | Some row \<Rightarrow> map_sum id Some (nominal_ratio n row (vn_lv_kv row) (lv_bus row)))
      else if side = ''lv'' then
        (case t tid' of
           None \<Rightarrow> Inl KeyError
         | Some row \<Rightarrow> map_sum id Some (nominal_ratio n row (vn_lv_kv row) (lv_bus row)))
      else if side = ''mv'' then
        (case t tid' of
           None \<Rightarrow> Inl KeyError
         | Some row \<Rightarrow>
             (case vn_mv_kv row of
                None \<Rightarrow> Inl KeyError
              | Some v \<Rightarrow>
                  (case mv_bus row of
                     None \<Rightarrow> Inl KeyError
                   | Some nb \<Rightarrow> map_sum id Some (nominal_ratio n row v nb))))
      else Inr None)"

text \<open>
  \<^verbatim>\<open>__init__\<close>. \<open>super\<close> is the outcome of the base class constructor. The lookups
  of lines 48 to 58 use the argument \<^verbatim>\<open>tid\<close>, not the attribute. The cast of the
  \<^verbatim>\<open>tap_pos\<close> column to float (lines 63 to 66) is the identity on real cells, so the
  network is not returned. The bookkeeping of lines 42 and 44 (\<^verbatim>\<open>update_initialized\<close>,
  \<^verbatim>\<open>matching_params\<close>) is read by neither operation and is left out.
\<close>

definition init ::
  "error + trafo_controller \<Rightarrow> net \<Rightarrow> int \<Rightarrow> real \<Rightarrow> real \<Rightarrow> string \<Rightarrow> string \<Rightarrow> bool
     \<Rightarrow> error + controller" where
  "init super n tid' u_set' tol' side trafotype' check_tap_bounds' =
     (case super of
        Inl e \<Rightarrow> Inl e
      | Inr b \<Rightarrow>
          (case net_table n (b_trafotable b) of
             None \<Rightarrow> Inl KeyError
           | Some t \<Rightarrow>
               (case compute_t_nom n t tid' side trafotype' of
                  Inl e \<Rightarrow> Inl e
                | Inr tn \<Rightarrow>
                    Inr \<lparr>tid = b_tid b, trafotable = b_trafotable b,
                         controlled_bus = b_controlled_bus b,
                         tap_step_percent = b_tap_step_percent b,
                         tap_side_coeff = b_tap_side_coeff b, tap_sign = b_tap_sign b,
                         tap_min = b_tap_min b, tap_max = b_tap_max b, tap_pos = b_tap_pos b,
                         t_nom = tn, check_tap_bounds = check_tap_bounds', u_set = u_set',
                         trafotype = trafotype', tol = tol'\<rparr>)))"

subsection \<open>One control step\<close>

text \<open>\<^verbatim>\<open>np.clip(a, a_min, a_max)\<close> is \<^verbatim>\<open>minimum(maximum(a, a_min), a_max)\<close>.\<close>

definition np_clip :: "real \<Rightarrow> real \<Rightarrow> real \<Rightarrow> real" where
  "np_clip a a_min a_max = min (max a a_min) a_max"

text \<open>Line 74, \<^verbatim>\<open>tc = ud / self.tap_step_percent * 100 / self.t_nom\<close>.\<close>

definition tap_correction :: "real \<Rightarrow> real \<Rightarrow> real \<Rightarrow> real" where
  "tap_correction ud tsp tn = ud / tsp * 100 / tn"

text \<open>Lines 75 to 77: the new value of \<^verbatim>\<open>self.tap_pos\<close>.\<close>

definition new_tap_pos :: "controller \<Rightarrow> real \<Rightarrow> real \<Rightarrow> real" where
  "new_tap_pos self vm tn =
     (let ud = vm - u_set self;
          tc = tap_correction ud (tap_step_percent self) tn;
          tp = tap_pos self + tc * of_int (tap_side_coeff self) * of_int (tap_sign self)
      in if check_tap_bounds self then np_clip tp (tap_min self) (tap_max self) else tp)"

text \<open>
  \<^verbatim>\<open>control_step\<close> returns the object and the network as it leaves them. The
  exceptions come first, in the order of the source: the voltage lookup of line 73, the
  read of \<^verbatim>\<open>self.t_nom\<close> in line 74, the table lookup of line 80. Writing with
  \<^verbatim>\<open>.at\<close> at an absent row label does not raise: pandas appends a row whose other
  cells are \<^verbatim>\<open>nan\<close>, which is the outcome \<open>NonFinite\<close> here, as is a zero divisor.
\<close>

definition control_step :: "controller \<Rightarrow> net \<Rightarrow> error + controller \<times> net" where
  "control_step self n =
     (case res_bus_vm_pu n (controlled_bus self) of
        None \<Rightarrow> Inl KeyError
      | Some vm \<Rightarrow>
          (case t_nom self of
             None \<Rightarrow> Inl AttributeError
           | Some tn \<Rightarrow>
               (let tp = new_tap_pos self vm tn in
                  (case net_table n (trafotable self) of
                     None \<Rightarrow> Inl KeyError
                   | Some t \<Rightarrow>
                       if tap_step_percent self = 0 \<or> tn = 0 then Inl NonFinite
                       else
                         (case t (tid self) of
                            None \<Rightarrow> Inl NonFinite
                          | Some row \<Rightarrow>
                              Inr (self\<lparr>tap_pos := tp\<rparr>,
                                   net_table_update n (trafotable self)
                                     (t(tid self \<mapsto> row\<lparr>tap_pos_cell := tp\<rparr>))))))))"

subsection \<open>The convergence check\<close>

text \<open>
  Line 105, \<^verbatim>\<open>abs(difference) < self.tol\<close> with \<^verbatim>\<open>difference = 1 - self.u_set / u\<close>. At
  \<open>u = 0\<close> the quotient is infinite or \<^verbatim>\<open>nan\<close>, and so is the absolute value, which is
  below no tolerance.
\<close>

definition within_tol :: "controller \<Rightarrow> real \<Rightarrow> bool" where
  "within_tol self u = (u \<noteq> 0 \<and> \<bar>1 - u_set self / u\<bar> < tol self)"

text \<open>
  \<^verbatim>\<open>is_converged\<close> returns its answer and the object, whose \<open>tap_pos\<close> it refreshes from
  the table unless the element is out of service.
\<close>

definition is_converged :: "controller \<Rightarrow> net \<Rightarrow> error + bool \<times> controller" where
  "is_converged self n =
     (case net_table n (trafotable self) of
        None \<Rightarrow> Inl KeyError
      | Some t \<Rightarrow>
          (case t (tid self) of
             None \<Rightarrow> Inl KeyError
           | Some row \<Rightarrow>
               if \<not> in_service row then Inr (True, self)
               else
                 (case res_bus_vm_pu n (controlled_bus self) of
                    None \<Rightarrow> Inl KeyError
                  | Some u \<Rightarrow>
                      (let self' = self\<lparr>tap_pos := tap_pos_cell row\<rparr>;
                           coeff_sign = tap_side_coeff self' * tap_sign self';
                           fall = within_tol self' u
                       in Inr
                          (if check_tap_bounds self' then
                             (if coeff_sign = 1 then
                                (if u < u_set self' \<and> tap_pos self' = tap_min self' then True
                                 else if u > u_set self' \<and> tap_pos self' = tap_max self' then True
                                 else fall)
                              else if coeff_sign = - 1 then
                                (if u > u_set self' \<and> tap_pos self' = tap_min self' then True
                                 else if u < u_set self' \<and> tap_pos self' = tap_max self' then True
                                 else fall)
                              else fall)
                           else fall,
                           self')))))"

subsection \<open>Reading the shared table\<close>

text \<open>The tap position that the table \<open>name\<close> holds for the transformer \<open>i\<close>.\<close>

definition table_tap_pos :: "net \<Rightarrow> string \<Rightarrow> int \<Rightarrow> real option" where
  "table_tap_pos n name i =
     (case net_table n name of
        None \<Rightarrow> None
      | Some t \<Rightarrow> map_option tap_pos_cell (t i))"

subsection \<open>The specification's notions\<close>

text \<open>
  Converged by saturation, in the words of the specification: with
  \<open>coeff * sign = +1\<close>, voltage below the setpoint at the minimum tap or above it at the
  maximum tap; with \<open>coeff * sign = -1\<close>, voltage above the setpoint at the minimum tap
  or below it at the maximum tap.
\<close>

definition converged_by_saturation :: "controller \<Rightarrow> real \<Rightarrow> bool" where
  "converged_by_saturation self u =
     ((tap_side_coeff self * tap_sign self = 1 \<and>
         ((u < u_set self \<and> tap_pos self = tap_min self) \<or>
          (u > u_set self \<and> tap_pos self = tap_max self))) \<or>
      (tap_side_coeff self * tap_sign self = - 1 \<and>
         ((u > u_set self \<and> tap_pos self = tap_min self) \<or>
          (u < u_set self \<and> tap_pos self = tap_max self))))"

text \<open>Clamping a value to the interval from \<open>lo\<close> to \<open>hi\<close>.\<close>

definition clamp :: "real \<Rightarrow> real \<Rightarrow> real \<Rightarrow> real" where
  "clamp x lo hi = (if x < lo then lo else if hi < x then hi else x)"

subsection \<open>Two small networks\<close>

text \<open>
  A 110/20 kV two-winding transformer between bus 0 and bus 1, and the controller that
  regulates its low-voltage side to 1.0 pu.
\<close>

definition ex_row :: trafo_row where
  "ex_row = \<lparr>vn_hv_kv = 110, vn_lv_kv = 20, vn_mv_kv = None, hv_bus = 0, lv_bus = 1,
     mv_bus = None, tap_pos_cell = 0, in_service = True\<rparr>"

definition ex_net :: net where
  "ex_net = \<lparr>trafo = [0 \<mapsto> ex_row], trafo3w = Map.empty,
     bus_vn_kv = [0 \<mapsto> 110, 1 \<mapsto> 20], res_bus_vm_pu = [0 \<mapsto> 1.02, 1 \<mapsto> 0.98]\<rparr>"

definition ex_base :: trafo_controller where
  "ex_base = \<lparr>b_tid = 0, b_trafotable = ''trafo'', b_controlled_bus = 1,
     b_tap_step_percent = 1.5, b_tap_side_coeff = 1, b_tap_sign = 1,
     b_tap_min = - 9, b_tap_max = 9, b_tap_pos = 0\<rparr>"

definition ex_ctrl :: controller where
  "ex_ctrl = \<lparr>tid = 0, trafotable = ''trafo'', controlled_bus = 1, tap_step_percent = 1.5,
     tap_side_coeff = 1, tap_sign = 1, tap_min = - 9, tap_max = 9, tap_pos = 0,
     t_nom = Some 1, check_tap_bounds = True, u_set = 1, trafotype = ''2W'', tol = 0.001\<rparr>"

text \<open>
  A 110/20/10 kV three-winding transformer between the buses 0, 1 and 2, and the object
  that the constructor returns for it when asked to regulate the side \<^verbatim>\<open>"hv"\<close>.
\<close>

definition ex_row3w :: trafo_row where
  "ex_row3w = \<lparr>vn_hv_kv = 110, vn_lv_kv = 10, vn_mv_kv = Some 20, hv_bus = 0, lv_bus = 2,
     mv_bus = Some 1, tap_pos_cell = 0, in_service = True\<rparr>"

definition ex_net3w :: net where
  "ex_net3w = \<lparr>trafo = Map.empty, trafo3w = [0 \<mapsto> ex_row3w],
     bus_vn_kv = [0 \<mapsto> 110, 1 \<mapsto> 20, 2 \<mapsto> 10],
     res_bus_vm_pu = [0 \<mapsto> 1.02, 1 \<mapsto> 0.98, 2 \<mapsto> 0.97]\<rparr>"

definition ex_base3w :: trafo_controller where
  "ex_base3w = \<lparr>b_tid = 0, b_trafotable = ''trafo3w'', b_controlled_bus = 0,
     b_tap_step_percent = 1.5, b_tap_side_coeff = 1, b_tap_sign = 1,
     b_tap_min = - 9, b_tap_max = 9, b_tap_pos = 0\<rparr>"

definition ex_ctrl3w_hv :: controller where
  "ex_ctrl3w_hv = \<lparr>tid = 0, trafotable = ''trafo3w'', controlled_bus = 0,
     tap_step_percent = 1.5, tap_side_coeff = 1, tap_sign = 1, tap_min = - 9, tap_max = 9,
     tap_pos = 0, t_nom = None, check_tap_bounds = True, u_set = 1, trafotype = ''3W'',
     tol = 0.001\<rparr>"

section \<open>Properties\<close>

text \<open>
  C6. When the controlled transformer is marked out of service in its table,
  \<open>is_converged\<close> answers true at once: whatever the tolerance, the tap position and the
  bounds are, whether or not the controlled bus has a solved voltage at all, and without
  refreshing the object.
\<close>

theorem out_of_service_converged:
  assumes "net_table n (trafotable self) = Some t"
    and "t (tid self) = Some row"
    and "\<not> in_service row"
  shows "is_converged self n = Inr (True, self)"
  using assms by (simp add: is_converged_def)

theorem out_of_service_converged_witness:
  "is_converged (ex_ctrl\<lparr>tol := 0\<rparr>)
     (ex_net\<lparr>trafo := [0 \<mapsto> ex_row\<lparr>in_service := False\<rparr>], res_bus_vm_pu := Map.empty\<rparr>)
   = Inr (True, ex_ctrl\<lparr>tol := 0\<rparr>)"
proof -
  let ?n = "ex_net\<lparr>trafo := [0 \<mapsto> ex_row\<lparr>in_service := False\<rparr>], res_bus_vm_pu := Map.empty\<rparr>"
  let ?c = "ex_ctrl\<lparr>tol := 0\<rparr>"
  have h1: "net_table ?n (trafotable ?c) = Some [0 \<mapsto> ex_row\<lparr>in_service := False\<rparr>]"
    by (simp add: net_table_def ex_net_def ex_ctrl_def)
  have h2: "[0 \<mapsto> ex_row\<lparr>in_service := False\<rparr>] (tid ?c) = Some (ex_row\<lparr>in_service := False\<rparr>)"
    by (simp add: ex_ctrl_def)
  have h3: "\<not> in_service (ex_row\<lparr>in_service := False\<rparr>)"
    by simp
  show ?thesis
    using out_of_service_converged [OF h1 h2 h3] by simp
qed

subsection \<open>Auxiliary facts\<close>

lemma np_clip_bounds:
  "lo \<le> hi \<Longrightarrow> lo \<le> np_clip x lo hi \<and> np_clip x lo hi \<le> hi"
  by (simp add: np_clip_def)

lemma np_clip_clamp: "lo \<le> hi \<Longrightarrow> np_clip x lo hi = clamp x lo hi"
  by (simp add: np_clip_def clamp_def)

lemma np_clip_inside: "lo \<le> x \<Longrightarrow> x \<le> hi \<Longrightarrow> np_clip x lo hi = x"
  by (simp add: np_clip_def)

lemma net_table_update_same:
  "net_table n name = Some t \<Longrightarrow> net_table (net_table_update n name t') name = Some t'"
  by (auto simp: net_table_def net_table_update_def split: if_splits)

lemma net_table_update_id:
  "net_table n name = Some t \<Longrightarrow> net_table_update n name t = n"
  by (auto simp: net_table_def net_table_update_def split: if_splits)

lemma control_step_returns:
  assumes "res_bus_vm_pu n (controlled_bus self) = Some vm"
    and "t_nom self = Some tn"
    and "net_table n (trafotable self) = Some t"
    and "t (tid self) = Some row"
    and "tap_step_percent self \<noteq> 0"
    and "tn \<noteq> 0"
  shows "control_step self n =
           Inr (self\<lparr>tap_pos := new_tap_pos self vm tn\<rparr>,
                net_table_update n (trafotable self)
                  (t(tid self \<mapsto> row\<lparr>tap_pos_cell := new_tap_pos self vm tn\<rparr>)))"
  using assms by (simp add: control_step_def Let_def)

lemma is_converged_in_service:
  assumes "net_table n (trafotable self) = Some t"
    and "t (tid self) = Some row"
    and "in_service row"
    and "res_bus_vm_pu n (controlled_bus self) = Some u"
  shows "is_converged self n =
           Inr ((check_tap_bounds self \<and>
                   converged_by_saturation (self\<lparr>tap_pos := tap_pos_cell row\<rparr>) u)
                \<or> within_tol self u,
                self\<lparr>tap_pos := tap_pos_cell row\<rparr>)"
  using assms
  by (auto simp: is_converged_def converged_by_saturation_def within_tol_def Let_def)

subsection \<open>The convergence check\<close>

text \<open>
  C1. For an element in service and a controller that checks the tap bounds,
  \<open>is_converged\<close> answers true in each of the four saturation cases of the
  specification, whatever the tolerance and the relative deviation are; outside these
  four cases the bounds decide nothing and the answer is that of the tolerance check.
  The tap position compared with the bounds is the one read from the table.
\<close>

theorem saturation_converged:
  assumes "net_table n (trafotable self) = Some t"
    and "t (tid self) = Some row"
    and "in_service row"
    and "res_bus_vm_pu n (controlled_bus self) = Some u"
    and "check_tap_bounds self"
  shows "(converged_by_saturation (self\<lparr>tap_pos := tap_pos_cell row\<rparr>) u \<longrightarrow>
            is_converged self n = Inr (True, self\<lparr>tap_pos := tap_pos_cell row\<rparr>)) \<and>
         (\<not> converged_by_saturation (self\<lparr>tap_pos := tap_pos_cell row\<rparr>) u \<longrightarrow>
            is_converged self n = Inr (within_tol self u, self\<lparr>tap_pos := tap_pos_cell row\<rparr>))"
  using is_converged_in_service [OF assms(1-4)] assms(5) by simp

theorem saturation_converged_witness:
  "is_converged ex_ctrl (ex_net\<lparr>trafo := [0 \<mapsto> ex_row\<lparr>tap_pos_cell := - 9\<rparr>]\<rparr>)
     = Inr (True, ex_ctrl\<lparr>tap_pos := - 9\<rparr>)
   \<and> \<not> \<bar>1 - u_set ex_ctrl / 0.98\<bar> < tol ex_ctrl"
proof -
  let ?row = "ex_row\<lparr>tap_pos_cell := - 9\<rparr>"
  let ?n = "ex_net\<lparr>trafo := [0 \<mapsto> ?row]\<rparr>"
  have h1: "net_table ?n (trafotable ex_ctrl) = Some [0 \<mapsto> ?row]"
    by (simp add: net_table_def ex_net_def ex_ctrl_def)
  have h2: "[0 \<mapsto> ?row] (tid ex_ctrl) = Some ?row"
    by (simp add: ex_ctrl_def)
  have h3: "in_service ?row"
    by (simp add: ex_row_def)
  have h4: "res_bus_vm_pu ?n (controlled_bus ex_ctrl) = Some 0.98"
    by (simp add: ex_net_def ex_ctrl_def)
  have h5: "check_tap_bounds ex_ctrl"
    by (simp add: ex_ctrl_def)
  have sat: "converged_by_saturation (ex_ctrl\<lparr>tap_pos := tap_pos_cell ?row\<rparr>) 0.98"
    by (simp add: converged_by_saturation_def ex_ctrl_def)
  have far: "\<not> \<bar>1 - u_set ex_ctrl / 0.98\<bar> < tol ex_ctrl"
    by (simp add: ex_ctrl_def)
  show ?thesis
    using saturation_converged [OF h1 h2 h3 h4 h5] sat far by simp
qed

text \<open>
  C3. For an element in service with a non-zero solved voltage \<open>u\<close>, when the bounds are
  not checked or none of the four saturation cases holds, \<open>is_converged\<close> answers true
  exactly when \<open>\<bar>1 - u_set / u\<bar> < tol\<close>, the tolerance taken as it is. With setpoint
  1.00 and tolerance 0.001 the answer is true at 1.0009 and false at 1.0012.
\<close>

theorem tolerance_converged:
  assumes "net_table n (trafotable self) = Some t"
    and "t (tid self) = Some row"
    and "in_service row"
    and "res_bus_vm_pu n (controlled_bus self) = Some u"
    and "u \<noteq> 0"
    and "\<not> check_tap_bounds self \<or>
         \<not> converged_by_saturation (self\<lparr>tap_pos := tap_pos_cell row\<rparr>) u"
  shows "is_converged self n =
           Inr (\<bar>1 - u_set self / u\<bar> < tol self, self\<lparr>tap_pos := tap_pos_cell row\<rparr>) \<and>
         (u_set self = 1.00 \<and> tol self = 0.001 \<and> u = 1.0009 \<longrightarrow>
            is_converged self n = Inr (True, self\<lparr>tap_pos := tap_pos_cell row\<rparr>)) \<and>
         (u_set self = 1.00 \<and> tol self = 0.001 \<and> u = 1.0012 \<longrightarrow>
            is_converged self n = Inr (False, self\<lparr>tap_pos := tap_pos_cell row\<rparr>))"
proof -
  have eq: "is_converged self n =
      Inr (\<bar>1 - u_set self / u\<bar> < tol self, self\<lparr>tap_pos := tap_pos_cell row\<rparr>)"
    using is_converged_in_service [OF assms(1-4)] assms(5,6)
    by (auto simp: within_tol_def)
  have near: "\<bar>1 - 1.00 / (1.0009::real)\<bar> < 0.001"
    by simp
  have far: "\<not> \<bar>1 - 1.00 / (1.0012::real)\<bar> < 0.001"
    by simp
  have at_near: "is_converged self n = Inr (True, self\<lparr>tap_pos := tap_pos_cell row\<rparr>)"
    if "u_set self = 1.00 \<and> tol self = 0.001 \<and> u = 1.0009"
  proof -
    from that have v: "u_set self = 1.00" "tol self = 0.001" "u = 1.0009"
      by blast+
    have "\<bar>1 - u_set self / u\<bar> < tol self"
      unfolding v by (rule near)
    with eq show ?thesis by simp
  qed
  have at_far: "is_converged self n = Inr (False, self\<lparr>tap_pos := tap_pos_cell row\<rparr>)"
    if "u_set self = 1.00 \<and> tol self = 0.001 \<and> u = 1.0012"
  proof -
    from that have v: "u_set self = 1.00" "tol self = 0.001" "u = 1.0012"
      by blast+
    have "\<not> \<bar>1 - u_set self / u\<bar> < tol self"
      unfolding v by (rule far)
    with eq show ?thesis by simp
  qed
  show ?thesis
    using eq at_near at_far by blast
qed

theorem tolerance_converged_witness:
  "is_converged (ex_ctrl\<lparr>check_tap_bounds := False\<rparr>) (ex_net\<lparr>res_bus_vm_pu := [1 \<mapsto> 1.0009]\<rparr>)
     = Inr (True, ex_ctrl\<lparr>check_tap_bounds := False\<rparr>)
   \<and> is_converged ex_ctrl (ex_net\<lparr>res_bus_vm_pu := [1 \<mapsto> 1.0012]\<rparr>)
     = Inr (False, ex_ctrl)"
proof -
  let ?c = "ex_ctrl\<lparr>check_tap_bounds := False\<rparr>"
  let ?n1 = "ex_net\<lparr>res_bus_vm_pu := [1 \<mapsto> 1.0009]\<rparr>"
  let ?n2 = "ex_net\<lparr>res_bus_vm_pu := [1 \<mapsto> 1.0012]\<rparr>"
  have a1: "net_table ?n1 (trafotable ?c) = Some [0 \<mapsto> ex_row]"
    by (simp add: net_table_def ex_net_def ex_ctrl_def)
  have a2: "[0 \<mapsto> ex_row] (tid ?c) = Some ex_row"
    by (simp add: ex_ctrl_def)
  have a3: "in_service ex_row"
    by (simp add: ex_row_def)
  have a4: "res_bus_vm_pu ?n1 (controlled_bus ?c) = Some 1.0009"
    by (simp add: ex_ctrl_def)
  have a5: "(1.0009::real) \<noteq> 0"
    by simp
  have a6: "\<not> check_tap_bounds ?c \<or>
      \<not> converged_by_saturation (?c\<lparr>tap_pos := tap_pos_cell ex_row\<rparr>) 1.0009"
    by simp
  have b1: "net_table ?n2 (trafotable ex_ctrl) = Some [0 \<mapsto> ex_row]"
    by (simp add: net_table_def ex_net_def ex_ctrl_def)
  have b2: "[0 \<mapsto> ex_row] (tid ex_ctrl) = Some ex_row"
    by (simp add: ex_ctrl_def)
  have b4: "res_bus_vm_pu ?n2 (controlled_bus ex_ctrl) = Some 1.0012"
    by (simp add: ex_ctrl_def)
  have b5: "(1.0012::real) \<noteq> 0"
    by simp
  have b6: "\<not> check_tap_bounds ex_ctrl \<or>
      \<not> converged_by_saturation (ex_ctrl\<lparr>tap_pos := tap_pos_cell ex_row\<rparr>) 1.0012"
    by (simp add: converged_by_saturation_def ex_ctrl_def ex_row_def)
  have same1: "?c\<lparr>tap_pos := tap_pos_cell ex_row\<rparr> = ?c"
    by (simp add: ex_ctrl_def ex_row_def)
  have same2: "ex_ctrl\<lparr>tap_pos := tap_pos_cell ex_row\<rparr> = ex_ctrl"
    by (simp add: ex_ctrl_def ex_row_def)
  have u1: "u_set ?c = 1.00 \<and> tol ?c = 0.001"
    by (simp add: ex_ctrl_def)
  have u2: "u_set ex_ctrl = 1.00 \<and> tol ex_ctrl = 0.001"
    by (simp add: ex_ctrl_def)
  show ?thesis
    using tolerance_converged [OF a1 a2 a3 a4 a5 a6]
      tolerance_converged [OF b1 b2 a3 b4 b5 b6] same1 same2 u1 u2
    by simp
qed

subsection \<open>The control step\<close>

text \<open>
  C2. A step that has a solved voltage \<open>vm\<close> for the controlled bus, the nominal ratio
  \<open>tn\<close>, non-zero divisors and the transformer's row returns with the tap position
  \<open>old + ((vm - u_set) / tap_step_percent * 100 / tn) * tap_side_coeff * tap_sign\<close>,
  clipped to the bounds exactly when \<open>check_tap_bounds\<close> is set, and the same value
  stands in the transformer table at \<open>tid\<close>. For \<open>tap_min \<le> tap_max\<close> the clipping of
  numpy is the clamping to the interval.
\<close>

theorem control_step_formula:
  assumes "res_bus_vm_pu n (controlled_bus self) = Some vm"
    and "t_nom self = Some tn"
    and "net_table n (trafotable self) = Some t"
    and "t (tid self) = Some row"
    and "tap_step_percent self \<noteq> 0"
    and "tn \<noteq> 0"
    and "raw = tap_pos self + ((vm - u_set self) / tap_step_percent self * 100 / tn)
                 * of_int (tap_side_coeff self) * of_int (tap_sign self)"
  shows "\<exists>self' n'. control_step self n = Inr (self', n') \<and>
           tap_pos self' = (if check_tap_bounds self then np_clip raw (tap_min self) (tap_max self)
                            else raw) \<and>
           (check_tap_bounds self \<and> tap_min self \<le> tap_max self \<longrightarrow>
              tap_pos self' = clamp raw (tap_min self) (tap_max self)) \<and>
           table_tap_pos n' (trafotable self) (tid self) = Some (tap_pos self') \<and>
           self' = self\<lparr>tap_pos := tap_pos self'\<rparr>"
proof -
  let ?tp = "new_tap_pos self vm tn"
  let ?n' = "net_table_update n (trafotable self) (t(tid self \<mapsto> row\<lparr>tap_pos_cell := ?tp\<rparr>))"
  have step: "control_step self n = Inr (self\<lparr>tap_pos := ?tp\<rparr>, ?n')"
    by (rule control_step_returns [OF assms(1-6)])
  have tp: "?tp = (if check_tap_bounds self then np_clip raw (tap_min self) (tap_max self)
                   else raw)"
    by (simp add: new_tap_pos_def tap_correction_def Let_def assms(7))
  have cl: "check_tap_bounds self \<and> tap_min self \<le> tap_max self \<longrightarrow>
              ?tp = clamp raw (tap_min self) (tap_max self)"
    using tp by (simp add: np_clip_clamp)
  have tab: "table_tap_pos ?n' (trafotable self) (tid self) = Some ?tp"
    by (simp add: table_tap_pos_def net_table_update_same [OF assms(3)])
  show ?thesis
    using step tp cl tab by simp
qed

theorem control_step_formula_witness:
  "\<exists>self' n'. control_step ex_ctrl ex_net = Inr (self', n') \<and>
     tap_pos self' = - 4 / 3 \<and> table_tap_pos n' ''trafo'' 0 = Some (- 4 / 3)"
proof -
  have h1: "res_bus_vm_pu ex_net (controlled_bus ex_ctrl) = Some 0.98"
    by (simp add: ex_net_def ex_ctrl_def)
  have h2: "t_nom ex_ctrl = Some 1"
    by (simp add: ex_ctrl_def)
  have h3: "net_table ex_net (trafotable ex_ctrl) = Some [0 \<mapsto> ex_row]"
    by (simp add: net_table_def ex_net_def ex_ctrl_def)
  have h4: "[0 \<mapsto> ex_row] (tid ex_ctrl) = Some ex_row"
    by (simp add: ex_ctrl_def)
  have h5: "tap_step_percent ex_ctrl \<noteq> 0"
    by (simp add: ex_ctrl_def)
  have h6: "(1::real) \<noteq> 0"
    by simp
  have h7: "(- 4 / 3 :: real) = tap_pos ex_ctrl
      + ((0.98 - u_set ex_ctrl) / tap_step_percent ex_ctrl * 100 / 1)
        * of_int (tap_side_coeff ex_ctrl) * of_int (tap_sign ex_ctrl)"
    by (simp add: ex_ctrl_def)
  have c: "(if check_tap_bounds ex_ctrl
            then np_clip (- 4 / 3) (tap_min ex_ctrl) (tap_max ex_ctrl) else - 4 / 3) = - 4 / 3"
    by (simp add: ex_ctrl_def np_clip_def)
  have names: "trafotable ex_ctrl = ''trafo''" "tid ex_ctrl = 0"
    by (simp_all add: ex_ctrl_def)
  show ?thesis
    using control_step_formula [OF h1 h2 h3 h4 h5 h6 h7] c names by auto
qed

text \<open>
  C4. With \<open>check_tap_bounds\<close> set and \<open>tap_min \<le> tap_max\<close>, a step on valid inputs (a
  solved voltage, the nominal ratio, non-zero divisors, the transformer's row) returns,
  and the tap position it leaves lies within the bounds, in the object and in the table.
\<close>

theorem control_step_within_bounds:
  assumes "res_bus_vm_pu n (controlled_bus self) = Some vm"
    and "t_nom self = Some tn"
    and "net_table n (trafotable self) = Some t"
    and "t (tid self) = Some row"
    and "tap_step_percent self \<noteq> 0"
    and "tn \<noteq> 0"
    and "check_tap_bounds self"
    and "tap_min self \<le> tap_max self"
  shows "\<exists>self' n' v. control_step self n = Inr (self', n') \<and>
           tap_pos self' = v \<and>
           table_tap_pos n' (trafotable self) (tid self) = Some v \<and>
           tap_min self' \<le> v \<and> v \<le> tap_max self' \<and>
           tap_min self' = tap_min self \<and> tap_max self' = tap_max self"
proof -
  let ?tp = "new_tap_pos self vm tn"
  let ?n' = "net_table_update n (trafotable self) (t(tid self \<mapsto> row\<lparr>tap_pos_cell := ?tp\<rparr>))"
  have step: "control_step self n = Inr (self\<lparr>tap_pos := ?tp\<rparr>, ?n')"
    by (rule control_step_returns [OF assms(1-6)])
  have tab: "table_tap_pos ?n' (trafotable self) (tid self) = Some ?tp"
    by (simp add: table_tap_pos_def net_table_update_same [OF assms(3)])
  have "\<exists>x. ?tp = np_clip x (tap_min self) (tap_max self)"
    using assms(7) by (auto simp: new_tap_pos_def Let_def)
  then have bounds: "tap_min self \<le> ?tp \<and> ?tp \<le> tap_max self"
    using np_clip_bounds [OF assms(8)] by auto
  show ?thesis
    using step tab bounds by simp
qed

theorem control_step_within_bounds_witness:
  "\<exists>self' n'. control_step (ex_ctrl\<lparr>tap_pos := 8\<rparr>) (ex_net\<lparr>res_bus_vm_pu := [1 \<mapsto> 1.06]\<rparr>)
       = Inr (self', n') \<and>
     tap_pos self' = 9 \<and> table_tap_pos n' ''trafo'' 0 = Some 9"
proof -
  let ?c = "ex_ctrl\<lparr>tap_pos := 8\<rparr>"
  let ?n = "ex_net\<lparr>res_bus_vm_pu := [1 \<mapsto> 1.06]\<rparr>"
  have h1: "res_bus_vm_pu ?n (controlled_bus ?c) = Some 1.06"
    by (simp add: ex_ctrl_def)
  have h2: "t_nom ?c = Some 1"
    by (simp add: ex_ctrl_def)
  have h3: "net_table ?n (trafotable ?c) = Some [0 \<mapsto> ex_row]"
    by (simp add: net_table_def ex_net_def ex_ctrl_def)
  have h4: "[0 \<mapsto> ex_row] (tid ?c) = Some ex_row"
    by (simp add: ex_ctrl_def)
  have h5: "tap_step_percent ?c \<noteq> 0"
    by (simp add: ex_ctrl_def)
  have h6: "(1::real) \<noteq> 0"
    by simp
  have h7: "check_tap_bounds ?c"
    by (simp add: ex_ctrl_def)
  have h8: "tap_min ?c \<le> tap_max ?c"
    by (simp add: ex_ctrl_def)
  have v: "new_tap_pos ?c 1.06 1 = 9"
    by (simp add: new_tap_pos_def tap_correction_def np_clip_def ex_ctrl_def)
  have names: "trafotable ?c = ''trafo''" "tid ?c = 0"
    by (simp_all add: ex_ctrl_def)
  have step: "control_step ?c ?n =
      Inr (?c\<lparr>tap_pos := new_tap_pos ?c 1.06 1\<rparr>,
           net_table_update ?n (trafotable ?c)
             ([0 \<mapsto> ex_row](tid ?c \<mapsto> ex_row\<lparr>tap_pos_cell := new_tap_pos ?c 1.06 1\<rparr>)))"
    by (rule control_step_returns [OF h1 h2 h3 h4 h5 h6])
  show ?thesis
    using control_step_within_bounds [OF h1 h2 h3 h4 h5 h6 h7 h8] step v names by auto
qed

text \<open>
  C8, as the specification states it: at \<open>vm = u_set\<close> a step leaves the tap position
  unchanged. It fails for a tap position outside the bounds: the correction is zero, but
  the clipping of line 77 still applies. Here the position 12, above the upper bound 9,
  is held by the object and by the table, the voltage equals the setpoint, and the step
  leaves 9 in both.
\<close>

theorem equilibrium_step_counterexample:
  "res_bus_vm_pu (ex_net\<lparr>trafo := [0 \<mapsto> ex_row\<lparr>tap_pos_cell := 12\<rparr>], res_bus_vm_pu := [1 \<mapsto> 1]\<rparr>)
      (controlled_bus (ex_ctrl\<lparr>tap_pos := 12\<rparr>)) = Some (u_set (ex_ctrl\<lparr>tap_pos := 12\<rparr>))
   \<and> control_step (ex_ctrl\<lparr>tap_pos := 12\<rparr>)
        (ex_net\<lparr>trafo := [0 \<mapsto> ex_row\<lparr>tap_pos_cell := 12\<rparr>], res_bus_vm_pu := [1 \<mapsto> 1]\<rparr>)
      = Inr (ex_ctrl\<lparr>tap_pos := 9\<rparr>,
             ex_net\<lparr>trafo := [0 \<mapsto> ex_row\<lparr>tap_pos_cell := 9\<rparr>], res_bus_vm_pu := [1 \<mapsto> 1]\<rparr>)
   \<and> tap_pos (ex_ctrl\<lparr>tap_pos := 9\<rparr>) \<noteq> tap_pos (ex_ctrl\<lparr>tap_pos := 12\<rparr>)"
  by (simp add: control_step_def new_tap_pos_def tap_correction_def np_clip_def
      net_table_def net_table_update_def ex_ctrl_def ex_net_def ex_row_def)

text \<open>
  C8, amended: at \<open>vm = u_set\<close>, with non-zero divisors, and with the tap position of
  the object within the bounds whenever \<open>check_tap_bounds\<close> is set, a step leaves the
  object as it is and writes the object's tap position to the table; when the table held
  that value already, the network is unchanged as well.
\<close>

theorem equilibrium_step_unchanged:
  assumes "res_bus_vm_pu n (controlled_bus self) = Some vm"
    and "vm = u_set self"
    and "t_nom self = Some tn"
    and "net_table n (trafotable self) = Some t"
    and "t (tid self) = Some row"
    and "tap_step_percent self \<noteq> 0"
    and "tn \<noteq> 0"
    and "check_tap_bounds self \<longrightarrow> tap_min self \<le> tap_pos self \<and> tap_pos self \<le> tap_max self"
  shows "\<exists>n'. control_step self n = Inr (self, n') \<and>
           table_tap_pos n' (trafotable self) (tid self) = Some (tap_pos self) \<and>
           (tap_pos_cell row = tap_pos self \<longrightarrow> n' = n)"
proof -
  let ?tp = "new_tap_pos self vm tn"
  let ?n' = "net_table_update n (trafotable self) (t(tid self \<mapsto> row\<lparr>tap_pos_cell := ?tp\<rparr>))"
  have step: "control_step self n = Inr (self\<lparr>tap_pos := ?tp\<rparr>, ?n')"
    by (rule control_step_returns [OF assms(1,3,4,5,6,7)])
  have tp: "?tp = tap_pos self"
    using assms(2,8) by (simp add: new_tap_pos_def tap_correction_def Let_def np_clip_inside)
  have tab: "table_tap_pos ?n' (trafotable self) (tid self) = Some ?tp"
    by (simp add: table_tap_pos_def net_table_update_same [OF assms(4)])
  have same: "?n' = n" if "tap_pos_cell row = tap_pos self"
  proof -
    have "row\<lparr>tap_pos_cell := ?tp\<rparr> = row"
      using that tp by simp
    then have "t(tid self \<mapsto> row\<lparr>tap_pos_cell := ?tp\<rparr>) = t"
      using assms(5) by (simp add: fun_upd_idem)
    then show ?thesis
      using net_table_update_id [OF assms(4)] by simp
  qed
  show ?thesis
    using step tp tab same by simp
qed

theorem equilibrium_step_unchanged_witness:
  "control_step (ex_ctrl\<lparr>tap_pos := 3\<rparr>)
     (ex_net\<lparr>trafo := [0 \<mapsto> ex_row\<lparr>tap_pos_cell := 3\<rparr>], res_bus_vm_pu := [1 \<mapsto> 1]\<rparr>)
   = Inr (ex_ctrl\<lparr>tap_pos := 3\<rparr>,
          ex_net\<lparr>trafo := [0 \<mapsto> ex_row\<lparr>tap_pos_cell := 3\<rparr>], res_bus_vm_pu := [1 \<mapsto> 1]\<rparr>)"
proof -
  let ?c = "ex_ctrl\<lparr>tap_pos := 3\<rparr>"
  let ?row = "ex_row\<lparr>tap_pos_cell := 3\<rparr>"
  let ?n = "ex_net\<lparr>trafo := [0 \<mapsto> ?row], res_bus_vm_pu := [1 \<mapsto> 1]\<rparr>"
  have h1: "res_bus_vm_pu ?n (controlled_bus ?c) = Some 1"
    by (simp add: ex_ctrl_def)
  have h2: "(1::real) = u_set ?c"
    by (simp add: ex_ctrl_def)
  have h3: "t_nom ?c = Some 1"
    by (simp add: ex_ctrl_def)
  have h4: "net_table ?n (trafotable ?c) = Some [0 \<mapsto> ?row]"
    by (simp add: net_table_def ex_net_def ex_ctrl_def)
  have h5: "[0 \<mapsto> ?row] (tid ?c) = Some ?row"
    by (simp add: ex_ctrl_def)
  have h6: "tap_step_percent ?c \<noteq> 0"
    by (simp add: ex_ctrl_def)
  have h7: "(1::real) \<noteq> 0"
    by simp
  have h8: "check_tap_bounds ?c \<longrightarrow> tap_min ?c \<le> tap_pos ?c \<and> tap_pos ?c \<le> tap_max ?c"
    by (simp add: ex_ctrl_def)
  have sync: "tap_pos_cell ?row = tap_pos ?c"
    by simp
  show ?thesis
    using equilibrium_step_unchanged [OF h1 h2 h3 h4 h5 h6 h7 h8] sync by auto
qed

subsection \<open>Construction\<close>

lemma nominal_ratio_returns:
  assumes "bus_vn_kv n (hv_bus row) = Some vn_h"
    and "bus_vn_kv n nb = Some vn_n"
    and "vn_hv_kv row \<noteq> 0"
    and "vn_n \<noteq> 0"
  shows "nominal_ratio n row v nb = Inr ((v / vn_hv_kv row) * (vn_h / vn_n))"
  using assms by (simp add: nominal_ratio_def)

lemma init_t_nom_of:
  assumes "net_table n (b_trafotable b) = Some t"
    and "compute_t_nom n t tid' side trafotype' = Inr tn"
  shows "\<exists>c. init (Inr b) n tid' us tol' side trafotype' chk = Inr c \<and> t_nom c = tn"
  using assms by (simp add: init_def)

text \<open>
  C5. When the base constructor has returned and the lookups succeed with non-zero
  divisors, the constructor sets \<open>t_nom\<close> to
  \<open>(rated voltage of the far winding / rated voltage of the hv winding) *
  (nominal voltage of the hv bus / nominal voltage of the far bus)\<close>, where the far side
  is the low-voltage one for the type \<^verbatim>\<open>"2W"\<close> and for the side \<^verbatim>\<open>"lv"\<close>, and the
  medium-voltage one for another type with the side \<^verbatim>\<open>"mv"\<close>. With 110/20 kV rated
  and 110/20 kV nominal voltages \<open>t_nom\<close> is 1, and the tap correction for a deviation
  of -0.02 at 1.5 percent per step is -4/3, within 0.001 of -1.333.
\<close>

theorem init_t_nom:
  assumes "net_table n (b_trafotable b) = Some t"
    and "t tid' = Some row"
    and "bus_vn_kv n (hv_bus row) = Some vn_h"
    and "vn_hv_kv row \<noteq> 0"
  shows "((trafotype' = ''2W'' \<or> side = ''lv'') \<and>
            bus_vn_kv n (lv_bus row) = Some vn_l \<and> vn_l \<noteq> 0 \<longrightarrow>
            (\<exists>c. init (Inr b) n tid' us tol' side trafotype' chk = Inr c \<and>
                 t_nom c = Some ((vn_lv_kv row / vn_hv_kv row) * (vn_h / vn_l)))) \<and>
         (trafotype' \<noteq> ''2W'' \<and> side = ''mv'' \<and> vn_mv_kv row = Some v \<and>
            mv_bus row = Some nb \<and> bus_vn_kv n nb = Some vn_m \<and> vn_m \<noteq> 0 \<longrightarrow>
            (\<exists>c. init (Inr b) n tid' us tol' side trafotype' chk = Inr c \<and>
                 t_nom c = Some ((v / vn_hv_kv row) * (vn_h / vn_m)))) \<and>
         (trafotype' = ''2W'' \<and> vn_hv_kv row = 110 \<and> vn_lv_kv row = 20 \<and> vn_h = 110 \<and>
            bus_vn_kv n (lv_bus row) = Some 20 \<longrightarrow>
            (\<exists>c. init (Inr b) n tid' us tol' side trafotype' chk = Inr c \<and>
                 t_nom c = Some 1.0)) \<and>
         tap_correction (- 0.02) 1.5 1.0 = - 4 / 3 \<and>
         \<bar>tap_correction (- 0.02) 1.5 1.0 - (- 1.333)\<bar> < 0.001 \<and>
         \<bar>\<bar>tap_correction (- 0.02) 1.5 1.0\<bar> - 1.333\<bar> < 0.001"
proof -
  have lv: "\<exists>c. init (Inr b) n tid' us tol' side trafotype' chk = Inr c \<and>
                t_nom c = Some ((vn_lv_kv row / vn_hv_kv row) * (vn_h / x))"
    if "trafotype' = ''2W'' \<or> side = ''lv''" and "bus_vn_kv n (lv_bus row) = Some x"
      and "x \<noteq> 0" for x
  proof -
    have "compute_t_nom n t tid' side trafotype' =
            Inr (Some ((vn_lv_kv row / vn_hv_kv row) * (vn_h / x)))"
      using that(1) assms(2) nominal_ratio_returns [OF assms(3) that(2) assms(4) that(3)]
      by (auto simp: compute_t_nom_def)
    then show ?thesis
      by (rule init_t_nom_of [OF assms(1)])
  qed
  have mv: "\<exists>c. init (Inr b) n tid' us tol' side trafotype' chk = Inr c \<and>
                t_nom c = Some ((v / vn_hv_kv row) * (vn_h / vn_m))"
    if "trafotype' \<noteq> ''2W''" and "side = ''mv''" and "vn_mv_kv row = Some v"
      and "mv_bus row = Some nb" and "bus_vn_kv n nb = Some vn_m" and "vn_m \<noteq> 0"
  proof -
    have "compute_t_nom n t tid' side trafotype' =
            Inr (Some ((v / vn_hv_kv row) * (vn_h / vn_m)))"
      using that(1-4) assms(2) nominal_ratio_returns [OF assms(3) that(5) assms(4) that(6)]
      by (simp add: compute_t_nom_def)
    then show ?thesis
      by (rule init_t_nom_of [OF assms(1)])
  qed
  have ex: "\<exists>c. init (Inr b) n tid' us tol' side trafotype' chk = Inr c \<and> t_nom c = Some 1.0"
    if "trafotype' = ''2W''" and "vn_hv_kv row = 110" and "vn_lv_kv row = 20"
      and "vn_h = 110" and "bus_vn_kv n (lv_bus row) = Some 20"
  proof -
    have "\<exists>c. init (Inr b) n tid' us tol' side trafotype' chk = Inr c \<and>
              t_nom c = Some ((vn_lv_kv row / vn_hv_kv row) * (vn_h / 20))"
      using that(1,5) by (intro lv) simp_all
    then show ?thesis
      by (simp add: that(2,3,4))
  qed
  have tc: "tap_correction (- 0.02) 1.5 1.0 = - 4 / 3"
    by (simp add: tap_correction_def)
  have approx: "\<bar>(- 4 / 3 :: real) - (- 1.333)\<bar> < 0.001" "\<bar>\<bar>- 4 / 3 :: real\<bar> - 1.333\<bar> < 0.001"
    by simp_all
  show ?thesis
    using lv mv ex approx unfolding tc by blast
qed

theorem init_t_nom_witness:
  "(\<exists>c. init (Inr ex_base) ex_net 0 1 0.001 ''lv'' ''2W'' True = Inr c \<and> t_nom c = Some 1) \<and>
   (\<exists>c. init (Inr ex_base3w) ex_net3w 0 1 0.001 ''mv'' ''3W'' True = Inr c \<and> t_nom c = Some 1) \<and>
   (\<exists>c. init (Inr ex_base3w) ex_net3w 0 1 0.001 ''lv'' ''3W'' True = Inr c \<and> t_nom c = Some 1)"
proof -
  have a1: "net_table ex_net (b_trafotable ex_base) = Some [0 \<mapsto> ex_row]"
    by (simp add: net_table_def ex_net_def ex_base_def)
  have a2: "[0 \<mapsto> ex_row] (0::int) = Some ex_row"
    by simp
  have a3: "bus_vn_kv ex_net (hv_bus ex_row) = Some 110"
    by (simp add: ex_net_def ex_row_def)
  have a4: "vn_hv_kv ex_row \<noteq> 0"
    by (simp add: ex_row_def)
  have a5: "bus_vn_kv ex_net (lv_bus ex_row) = Some 20"
    by (simp add: ex_net_def ex_row_def)
  have b1: "net_table ex_net3w (b_trafotable ex_base3w) = Some [0 \<mapsto> ex_row3w]"
    by (simp add: net_table_def ex_net3w_def ex_base3w_def)
  have b2: "[0 \<mapsto> ex_row3w] (0::int) = Some ex_row3w"
    by simp
  have b3: "bus_vn_kv ex_net3w (hv_bus ex_row3w) = Some 110"
    by (simp add: ex_net3w_def ex_row3w_def)
  have b4: "vn_hv_kv ex_row3w \<noteq> 0"
    by (simp add: ex_row3w_def)
  have b5: "vn_mv_kv ex_row3w = Some 20 \<and> mv_bus ex_row3w = Some 1 \<and>
      bus_vn_kv ex_net3w 1 = Some 20 \<and> bus_vn_kv ex_net3w (lv_bus ex_row3w) = Some 10"
    by (simp add: ex_net3w_def ex_row3w_def)
  have r: "vn_lv_kv ex_row / vn_hv_kv ex_row * (110 / 20) = 1"
    "20 / vn_hv_kv ex_row3w * (110 / 20) = 1"
    "vn_lv_kv ex_row3w / vn_hv_kv ex_row3w * (110 / 10) = 1"
    by (simp_all add: ex_row_def ex_row3w_def)
  show ?thesis
    using init_t_nom [OF a1 a2 a3 a4, where trafotype' = "''2W''" and side = "''lv''"
          and vn_l = 20 and us = 1 and tol' = "0.001" and chk = True]
      init_t_nom [OF b1 b2 b3 b4, where trafotype' = "''3W''" and side = "''mv''"
          and v = 20 and nb = 1 and vn_m = 20 and us = 1 and tol' = "0.001" and chk = True]
      init_t_nom [OF b1 b2 b3 b4, where trafotype' = "''3W''" and side = "''lv''"
          and vn_l = 10 and us = 1 and tol' = "0.001" and chk = True]
      a5 b5 r
    by simp
qed

lemma compute_t_nom_2W:
  "compute_t_nom n t tid' side ''2W'' =
     (case t tid' of
        None \<Rightarrow> Inl KeyError
      | Some row \<Rightarrow> map_sum id Some (nominal_ratio n row (vn_lv_kv row) (lv_bus row)))"
  by (simp add: compute_t_nom_def)

lemma nominal_ratio_Inr:
  assumes "nominal_ratio n row v nb = Inr x"
  shows "\<exists>vn_h vn_n. bus_vn_kv n (hv_bus row) = Some vn_h \<and> bus_vn_kv n nb = Some vn_n \<and>
           x = v / vn_hv_kv row * vn_h / vn_n"
  using assms by (auto simp: nominal_ratio_def split: option.splits if_splits)

text \<open>
  C10. For the type \<^verbatim>\<open>"2W"\<close> the side argument does not enter \<open>t_nom\<close>: two
  constructions on the same network and transformer that differ in the side, and whose
  base constructors name the same table, fail alike or set the same \<open>t_nom\<close>, and a
  \<open>t_nom\<close> that is set comes from the rated voltage of the low-voltage winding and the
  nominal voltage of the low-voltage bus.
\<close>

theorem two_winding_t_nom_ignores_side:
  assumes "b_trafotable b1 = b_trafotable b2"
  shows "map_sum id t_nom (init (Inr b1) n tid' us tol' side1 ''2W'' chk) =
         map_sum id t_nom (init (Inr b2) n tid' us tol' side2 ''2W'' chk) \<and>
         (\<forall>c. init (Inr b1) n tid' us tol' side1 ''2W'' chk = Inr c \<longrightarrow>
            (\<exists>t row vn_h vn_l.
               net_table n (b_trafotable b1) = Some t \<and> t tid' = Some row \<and>
               bus_vn_kv n (hv_bus row) = Some vn_h \<and>
               bus_vn_kv n (lv_bus row) = Some vn_l \<and>
               t_nom c = Some (vn_lv_kv row / vn_hv_kv row * vn_h / vn_l)))"
proof (intro conjI allI impI)
  show "map_sum id t_nom (init (Inr b1) n tid' us tol' side1 ''2W'' chk) =
        map_sum id t_nom (init (Inr b2) n tid' us tol' side2 ''2W'' chk)"
    using assms
    by (simp add: init_def compute_t_nom_2W split: option.splits sum.splits)
next
  fix c
  assume ok: "init (Inr b1) n tid' us tol' side1 ''2W'' chk = Inr c"
  then obtain t where t: "net_table n (b_trafotable b1) = Some t"
    by (auto simp: init_def split: option.splits)
  with ok obtain tn where tn: "compute_t_nom n t tid' side1 ''2W'' = Inr tn" "t_nom c = tn"
    by (auto simp: init_def split: sum.splits)
  from tn(1) obtain row where row: "t tid' = Some row"
    by (auto simp: compute_t_nom_2W split: option.splits)
  with tn(1) obtain x where x: "nominal_ratio n row (vn_lv_kv row) (lv_bus row) = Inr x"
      "tn = Some x"
    by (cases "nominal_ratio n row (vn_lv_kv row) (lv_bus row)")
      (auto simp: compute_t_nom_2W)
  from nominal_ratio_Inr [OF x(1)] obtain vn_h vn_l where
    "bus_vn_kv n (hv_bus row) = Some vn_h" "bus_vn_kv n (lv_bus row) = Some vn_l"
    "x = vn_lv_kv row / vn_hv_kv row * vn_h / vn_l"
    by blast
  with t row tn(2) x(2)
  show "\<exists>t row vn_h vn_l.
          net_table n (b_trafotable b1) = Some t \<and> t tid' = Some row \<and>
          bus_vn_kv n (hv_bus row) = Some vn_h \<and>
          bus_vn_kv n (lv_bus row) = Some vn_l \<and>
          t_nom c = Some (vn_lv_kv row / vn_hv_kv row * vn_h / vn_l)"
    by blast
qed

theorem two_winding_t_nom_ignores_side_witness:
  "map_sum id t_nom (init (Inr ex_base) ex_net 0 1 0.001 ''lv'' ''2W'' True) = Inr (Some 1) \<and>
   map_sum id t_nom
     (init (Inr (ex_base\<lparr>b_controlled_bus := 0\<rparr>)) ex_net 0 1 0.001 ''hv'' ''2W'' True)
     = Inr (Some 1)"
proof -
  have h: "b_trafotable ex_base = b_trafotable (ex_base\<lparr>b_controlled_bus := 0\<rparr>)"
    by simp
  have v: "map_sum id t_nom (init (Inr ex_base) ex_net 0 1 0.001 ''lv'' ''2W'' True)
      = Inr (Some 1)"
    by (simp add: init_def compute_t_nom_def nominal_ratio_def net_table_def
        ex_base_def ex_net_def ex_row_def)
  show ?thesis
    using two_winding_t_nom_ignores_side [OF h, where n = ex_net and tid' = 0 and us = 1
        and tol' = "0.001" and chk = True and ?side1.0 = "''lv''" and ?side2.0 = "''hv''"] v
    by simp
qed

text \<open>
  C7. The constructor has no branch for a side other than \<^verbatim>\<open>"lv"\<close> and \<^verbatim>\<open>"mv"\<close> on
  a transformer that is not of the type \<^verbatim>\<open>"2W"\<close>: lines 47 to 58 end without an
  \<^verbatim>\<open>else\<close>. Once the base constructor has returned, the type \<^verbatim>\<open>"3W"\<close> with the side
  \<^verbatim>\<open>"hv"\<close> is not rejected: the constructor returns an object whose \<open>t_nom\<close> was never
  assigned.
\<close>

theorem init_unsupported_side_returns:
  "init (Inr ex_base3w) ex_net3w 0 1 0.001 ''hv'' ''3W'' True = Inr ex_ctrl3w_hv \<and>
   t_nom ex_ctrl3w_hv = None"
  by (simp add: init_def compute_t_nom_def net_table_def ex_base3w_def ex_net3w_def
      ex_ctrl3w_hv_def)

text \<open>
  C9. On the object constructed above, with the element in service and a solved
  voltage at the controlled bus, the first control step raises: line 74 reads
  \<^verbatim>\<open>self.t_nom\<close>, which does not exist.
\<close>

theorem control_step_raises_after_init:
  "init (Inr ex_base3w) ex_net3w 0 1 0.001 ''hv'' ''3W'' True = Inr ex_ctrl3w_hv \<and>
   res_bus_vm_pu ex_net3w (controlled_bus ex_ctrl3w_hv) = Some 1.02 \<and>
   table_tap_pos ex_net3w (trafotable ex_ctrl3w_hv) (tid ex_ctrl3w_hv) = Some 0 \<and>
   control_step ex_ctrl3w_hv ex_net3w = Inl AttributeError"
  by (simp add: init_def compute_t_nom_def net_table_def control_step_def table_tap_pos_def
      ex_base3w_def ex_net3w_def ex_ctrl3w_hv_def ex_row3w_def)

end
